theory Spec2Isabelle
  imports Main "HOL-Library.AList"
begin

unbundle bit_operations_syntax

section \<open>Python values\<close>

text \<open>
  The menu compiler of \<^verbatim>\<open>systrayicon.py\<close> inspects its input with \<^verbatim>\<open>isinstance\<close>,
  \<^verbatim>\<open>callable\<close>, \<^verbatim>\<open>iter\<close> and truth tests, so the input is modelled as a dynamically typed
  value. A callable is identified by a number (its identity); a \<^verbatim>\<open>MenuOption\<close> instance
  carries the attributes that \<^verbatim>\<open>MenuOption.__init__\<close> sets, and a
  \<^verbatim>\<open>CheckBoxMenuOption\<close> instance carries \<^verbatim>\<open>check_hook\<close> and \<^verbatim>\<open>checked\<close> in addition.
  The attribute \<^verbatim>\<open>text\<close> is named \<open>item_text\<close> here; \<open>fstate_attr\<close> is the instance
  attribute \<^verbatim>\<open>fstate\<close> of a plain \<^verbatim>\<open>MenuOption\<close> (the subclass shadows it by a property).
\<close>

datatype 'v check_box = CheckBox (check_hook: 'v) (checked: 'v)

datatype 'v menu_option = MenuOption
  (item_text: 'v) (icon_path: 'v) (callback: 'v) (submenu: 'v)
  (ftype: 'v) (fstate_attr: 'v) (action_id: "int option")
  (menu_handle: "nat option") (menu_position: "nat option")
  (check_box: "'v check_box option")

datatype pyval =
    PNone
  | PBool bool
  | PInt int
  | PStr string
  | PFun nat
  | PTuple "pyval list"
  | PList "pyval list"
  | PDict "(string \<times> pyval) list"
  | PObj "pyval menu_option"

datatype py_error =
    TypeError
  | AttributeError
  | KeyError
  | ValueError_unknown_menu_option_type
  | Exception_unknown_item pyval pyval pyval

text \<open>Python's truth test (\<^verbatim>\<open>bool(x)\<close>, \<^verbatim>\<open>x or y\<close>, \<^verbatim>\<open>if x\<close>).\<close>

fun truthy :: "pyval \<Rightarrow> bool" where
  "truthy PNone = False"
| "truthy (PBool b) = b"
| "truthy (PInt i) = (i \<noteq> 0)"
| "truthy (PStr s) = (s \<noteq> [])"
| "truthy (PFun f) = True"
| "truthy (PTuple xs) = (xs \<noteq> [])"
| "truthy (PList xs) = (xs \<noteq> [])"
| "truthy (PDict kvs) = (kvs \<noteq> [])"
| "truthy (PObj m) = True"

fun callable :: "pyval \<Rightarrow> bool" where
  "callable (PFun f) = True"
| "callable v = False"

text \<open>\<^verbatim>\<open>iter(obj)\<close>: the elements a \<^verbatim>\<open>for\<close> loop visits, or \<^verbatim>\<open>TypeError\<close>.\<close>

fun py_iter :: "pyval \<Rightarrow> py_error + pyval list" where
  "py_iter (PStr s) = Inr (map (\<lambda>c. PStr [c]) s)"
| "py_iter (PTuple xs) = Inr xs"
| "py_iter (PList xs) = Inr xs"
| "py_iter (PDict kvs) = Inr (map (\<lambda>kv. PStr (fst kv)) kvs)"
| "py_iter v = Inl TypeError"

text \<open>
  \<^verbatim>\<open>
  def _non_string_iterable(obj):
      try:
          iter(obj)
      except TypeError:
          return False
      else:
          return not isinstance(obj, str)
  \<close>
\<close>

definition non_string_iterable :: "pyval \<Rightarrow> bool" where
  "non_string_iterable obj =
     (case py_iter obj of
        Inl err \<Rightarrow> False
      | Inr xs \<Rightarrow> (case obj of PStr s \<Rightarrow> False | _ \<Rightarrow> True))"

section \<open>MenuOption\<close>

text \<open>
  \<^verbatim>\<open>
  class MenuOption:
      def __init__(self, text, icon_path=None, callback=None, submenu=None):
          self.text = text; self.icon_path = icon_path
          self.callback = callback; self.submenu = submenu
          self.ftype = None; self.fstate = None
          self.action_id = None; self.menu_handle = None; self.menu_position = None
  \<close>
\<close>

definition MenuOption_init :: "pyval \<Rightarrow> pyval \<Rightarrow> pyval \<Rightarrow> pyval \<Rightarrow> pyval menu_option" where
  "MenuOption_init t i c s = MenuOption t i c s PNone PNone None None None None"

text \<open>\<^verbatim>\<open>MenuOption(*args)\<close>: one to four positional arguments, otherwise \<^verbatim>\<open>TypeError\<close>.\<close>

fun MenuOption_args :: "pyval list \<Rightarrow> py_error + pyval menu_option" where
  "MenuOption_args [t] = Inr (MenuOption_init t PNone PNone PNone)"
| "MenuOption_args [t, i] = Inr (MenuOption_init t i PNone PNone)"
| "MenuOption_args [t, i, c] = Inr (MenuOption_init t i c PNone)"
| "MenuOption_args [t, i, c, s] = Inr (MenuOption_init t i c s)"
| "MenuOption_args args = Inl TypeError"

text \<open>
  \<^verbatim>\<open>MenuOption(**kwargs)\<close>: an unexpected keyword or a missing \<^verbatim>\<open>text\<close> is a
  \<^verbatim>\<open>TypeError\<close>.
\<close>

definition kwarg :: "(string \<times> pyval) list \<Rightarrow> string \<Rightarrow> pyval" where
  "kwarg kvs k = (case map_of kvs k of None \<Rightarrow> PNone | Some v \<Rightarrow> v)"

definition MenuOption_kwargs :: "(string \<times> pyval) list \<Rightarrow> py_error + pyval menu_option" where
  "MenuOption_kwargs kvs =
     (if list_ex (\<lambda>kv. fst kv \<notin> set [''text'', ''icon_path'', ''callback'', ''submenu'']) kvs
      then Inl TypeError
      else (case map_of kvs ''text'' of
              None \<Rightarrow> Inl TypeError
            | Some t \<Rightarrow> Inr (MenuOption_init t (kwarg kvs ''icon_path'')
                               (kwarg kvs ''callback'') (kwarg kvs ''submenu''))))"

text \<open>Attribute assignment on a menu option.\<close>

fun set_action_id :: "int option \<Rightarrow> 'v menu_option \<Rightarrow> 'v menu_option" where
  "set_action_id v (MenuOption t i c s ft fs a h p cb) = MenuOption t i c s ft fs v h p cb"

fun set_submenu :: "'v \<Rightarrow> 'v menu_option \<Rightarrow> 'v menu_option" where
  "set_submenu v (MenuOption t i c s ft fs a h p cb) = MenuOption t i c v ft fs a h p cb"

fun set_callback :: "'v \<Rightarrow> 'v menu_option \<Rightarrow> 'v menu_option" where
  "set_callback v (MenuOption t i c s ft fs a h p cb) = MenuOption t i v s ft fs a h p cb"

section \<open>The controller and the menu compiler\<close>

text \<open>
  The attributes of \<^verbatim>\<open>SysTrayIcon\<close> (without the leading underscore). The dictionary
  \<^verbatim>\<open>_menu_actions_by_id\<close> is an association list; \<open>hicon = 0\<close> is "no icon handle",
  \<open>hwnd = None\<close> "no window".
\<close>

record systray =
  icon :: "string option"
  icon_shared :: bool
  hover_text :: string
  on_quit :: "nat option"
  next_action_id :: int
  menu_actions_by_id :: "(int \<times> pyval) list"
  menu_options :: "pyval list"
  default_menu_index :: int
  hwnd :: "nat option"
  hicon :: nat
  notify_id :: bool
  menu :: "nat option"

definition QUIT :: pyval where
  "QUIT = PStr ''QUIT''"

definition SPECIAL_ACTIONS :: "pyval list" where
  "SPECIAL_ACTIONS = [QUIT]"

definition FIRST_ID :: int where
  "FIRST_ID = 1023"

text \<open>
  The head of the loop body of \<^verbatim>\<open>_recompile_menu_options_with_ids\<close>:
  \<^verbatim>\<open>
  if isinstance(menu_option, tuple):   menu_option = MenuOption(*menu_option)
  elif isinstance(menu_option, dict):  menu_option = MenuOption(**menu_option)
  elif isinstance(menu_option, MenuOption): menu_option = copy(menu_option)
  else: raise ValueError('Unknown menu option type', type(menu_option))
  \<close>
\<close>

fun to_menu_option :: "pyval \<Rightarrow> py_error + pyval menu_option" where
  "to_menu_option (PTuple args) = MenuOption_args args"
| "to_menu_option (PDict kvs) = MenuOption_kwargs kvs"
| "to_menu_option (PObj m) = Inr m"
| "to_menu_option v = Inl ValueError_unknown_menu_option_type"

text \<open>
  \<^verbatim>\<open>submenu = menu_option.submenu or _non_string_iterable(menu_option.callback)\<close>:
  the right operand is the Boolean that the helper returns.
\<close>

definition submenu_or_iterable :: "pyval menu_option \<Rightarrow> pyval" where
  "submenu_or_iterable m =
     (if truthy (submenu m) then submenu m else PBool (non_string_iterable (callback m)))"

definition is_action :: "pyval \<Rightarrow> bool" where
  "is_action cb \<longleftrightarrow> callable cb \<or> cb \<in> set SPECIAL_ACTIONS"

lemma size_kwarg: "size (kwarg kvs k) \<le> size_list (size_prod (\<lambda>x. 0) size) kvs"
  by (induction kvs) (auto simp: kwarg_def)

lemma size_submenu_to_menu_option:
  "to_menu_option e = Inr m \<Longrightarrow> size (submenu m) < size e"
proof (cases e)
  case (PTuple args)
  assume "to_menu_option e = Inr m"
  with PTuple show ?thesis
    by (cases args rule: MenuOption_args.cases) (auto simp: MenuOption_init_def)
next
  case (PDict kvs)
  assume "to_menu_option e = Inr m"
  with PDict show ?thesis
    using size_kwarg [of kvs "''submenu''"]
    by (auto simp: MenuOption_kwargs_def MenuOption_init_def split: if_splits option.splits)
next
  case (PObj m')
  assume "to_menu_option e = Inr m"
  with PObj show ?thesis by (cases m') auto
qed auto

lemma sum_list_size_le: "sum_list (map size xs) \<le> size_list size (xs :: pyval list)"
  by (induction xs) auto

lemma size_py_iter: "py_iter v = Inr kids \<Longrightarrow> sum_list (map size kids) \<le> size v"
proof (cases v)
  case (PStr s)
  assume "py_iter v = Inr kids"
  with PStr have "kids = map (\<lambda>c. PStr [c]) s" by simp
  then have "sum_list (map size kids) = 0" by (simp add: comp_def)
  then show ?thesis by (simp only: le0)
next
  case (PDict kvs)
  assume "py_iter v = Inr kids"
  with PDict have "kids = map (\<lambda>kv. PStr (fst kv)) kvs" by simp
  then have "sum_list (map size kids) = 0" by (simp add: comp_def)
  then show ?thesis by (simp only: le0)
next
  case (PTuple xs)
  assume "py_iter v = Inr kids"
  with PTuple show ?thesis using sum_list_size_le [of xs] by auto
next
  case (PList xs)
  assume "py_iter v = Inr kids"
  with PList show ?thesis using sum_list_size_le [of xs] by auto
qed auto

lemma submenu_set_action_id [simp]: "submenu (set_action_id a m) = submenu m"
  by (cases m) simp

lemma callback_set_action_id [simp]: "callback (set_action_id a m) = callback m"
  by (cases m) simp

lemma size_submenu_entries:
  assumes "to_menu_option e = Inr m"
    and "py_iter (submenu_or_iterable (set_action_id a m)) = Inr kids"
  shows "sum_list (map size kids) < size e"
proof -
  have "truthy (submenu m)"
    using assms(2) by (auto simp: submenu_or_iterable_def split: if_splits)
  then have "py_iter (submenu m) = Inr kids"
    using assms(2) by (simp add: submenu_or_iterable_def)
  then have "sum_list (map size kids) \<le> size (submenu m)" by (rule size_py_iter)
  with size_submenu_to_menu_option [OF assms(1)] show ?thesis by simp
qed

text \<open>
  \<^verbatim>\<open>
  def _recompile_menu_options_with_ids(self, menu_options):
      result = []
      for menu_option in menu_options:
          ...                                   # to_menu_option
          menu_option.action_id = self._next_action_id
          submenu = menu_option.submenu or _non_string_iterable(menu_option.callback)
          if callable(menu_option.callback) or menu_option.callback in SysTrayIcon.SPECIAL_ACTIONS:
              self._menu_actions_by_id[menu_option.action_id] = menu_option.callback
          elif submenu:
              menu_option.submenu = self._recompile_menu_options_with_ids(submenu)
              menu_option.callback = None
          else:
              raise Exception('Unknown item', menu_option.text, menu_option.icon_path, menu_option.callback)
          result.append(menu_option)
          self._next_action_id += 1
      return result
  \<close>
  The loop is a recursion over the list; the controller (\<^verbatim>\<open>self\<close>) is passed along and
  returned. The counter is read before the recursive call and incremented only after it,
  as in the source.
\<close>

function recompile_menu_options_with_ids ::
  "systray \<Rightarrow> pyval list \<Rightarrow> py_error + (pyval list \<times> systray)" where
  "recompile_menu_options_with_ids self [] = Inr ([], self)"
| "recompile_menu_options_with_ids self (e # es) =
     (case to_menu_option e of
        Inl err \<Rightarrow> Inl err
      | Inr m0 \<Rightarrow>
          (let m = set_action_id (Some (next_action_id self)) m0;
               sub = submenu_or_iterable m
           in (case (if is_action (callback m) then
                       Inr (m, self\<lparr>menu_actions_by_id :=
                              AList.update (next_action_id self) (callback m)
                                (menu_actions_by_id self)\<rparr>)
                     else if truthy sub then
                       (case py_iter sub of
                          Inl err \<Rightarrow> Inl err
                        | Inr kids \<Rightarrow>
                            (case recompile_menu_options_with_ids self kids of
                               Inl err \<Rightarrow> Inl err
                             | Inr (kids', self1) \<Rightarrow>
                                 Inr (set_callback PNone (set_submenu (PList kids') m), self1)))
                     else Inl (Exception_unknown_item (item_text m) (icon_path m) (callback m)))
               of
                 Inl err \<Rightarrow> Inl err
               | Inr (m', self2) \<Rightarrow>
                   (case recompile_menu_options_with_ids
                           (self2\<lparr>next_action_id := next_action_id self2 + 1\<rparr>) es of
                      Inl err \<Rightarrow> Inl err
                    | Inr (rest, self3) \<Rightarrow> Inr (PObj m' # rest, self3)))))"
  by pat_completeness auto
termination
proof (relation "measures [\<lambda>(self, opts). sum_list (map size opts), \<lambda>(self, opts). length opts]")
  show "wf (measures [\<lambda>(self, opts). sum_list (map size opts), \<lambda>(self :: systray, opts :: pyval list). length opts])"
    by simp
qed (auto dest: size_submenu_entries)

text \<open>
  The caller's argument \<^verbatim>\<open>menu_options\<close>. A list object owned by the caller is a
  reference into a store of list objects, so that the in-place \<^verbatim>\<open>append\<close> is visible;
  every other argument (\<^verbatim>\<open>None\<close>, a tuple, ...) is passed as a value.
\<close>

datatype menu_arg = ByValue pyval | ListRef nat

type_synonym heap = "nat \<Rightarrow> pyval list"

fun arg_truthy :: "heap \<Rightarrow> menu_arg \<Rightarrow> bool" where
  "arg_truthy heap (ByValue v) = truthy v"
| "arg_truthy heap (ListRef a) = (heap a \<noteq> [])"

text \<open>
  \<^verbatim>\<open>menu_options.append(v)\<close>: on the caller's list object in place, on a list that
  nobody else holds, or \<^verbatim>\<open>AttributeError\<close> on a value that has no \<^verbatim>\<open>append\<close>. The second
  component is the content of the list after the call.
\<close>

fun list_append :: "heap \<Rightarrow> menu_arg \<Rightarrow> pyval \<Rightarrow> py_error + (heap \<times> pyval list)" where
  "list_append heap (ListRef a) v = Inr (heap(a := heap a @ [v]), heap a @ [v])"
| "list_append heap (ByValue (PList xs)) v = Inr (heap, xs @ [v])"
| "list_append heap (ByValue other) v = Inl AttributeError"

definition quit_option :: pyval where
  "quit_option = PObj (MenuOption_init (PStr ''Quit'') PNone QUIT PNone)"

text \<open>
  \<^verbatim>\<open>
  def _prepare_menu_options(self, menu_options):
      menu_options = menu_options or ()
      if isinstance(menu_options, tuple):
          menu_options = list(menu_options)
      menu_options.append(MenuOption('Quit', callback=SysTrayIcon.QUIT))
      self._next_action_id = SysTrayIcon.FIRST_ID
      self._menu_actions_by_id = dict()
      self._menu_options = self._recompile_menu_options_with_ids(menu_options)
  \<close>
  The store is returned in every case: an exception raised by the compiler does not undo
  the \<^verbatim>\<open>append\<close>. The controller is returned only when no exception is raised.
\<close>

definition or_empty_tuple :: "heap \<Rightarrow> menu_arg \<Rightarrow> menu_arg" where
  "or_empty_tuple heap arg = (if arg_truthy heap arg then arg else ByValue (PTuple []))"

fun tuple_to_list :: "menu_arg \<Rightarrow> menu_arg" where
  "tuple_to_list (ByValue (PTuple xs)) = ByValue (PList xs)"
| "tuple_to_list arg = arg"

definition prepare_menu_options ::
  "systray \<Rightarrow> heap \<Rightarrow> menu_arg \<Rightarrow> heap \<times> (py_error + systray)" where
  "prepare_menu_options self heap arg =
     (case list_append heap (tuple_to_list (or_empty_tuple heap arg)) quit_option of
        Inl err \<Rightarrow> (heap, Inl err)
      | Inr (heap', items) \<Rightarrow>
          (heap',
           case recompile_menu_options_with_ids
                  (self\<lparr>next_action_id := FIRST_ID, menu_actions_by_id := []\<rparr>) items of
             Inl err \<Rightarrow> Inl err
           | Inr (result, self') \<Rightarrow> Inr (self'\<lparr>menu_options := result\<rparr>)))"

text \<open>
  \<^verbatim>\<open>SysTrayIcon.__init__\<close>, without the window class (its name and its registration
  with the shell). \<^verbatim>\<open>default_menu_index or 0\<close> turns \<^verbatim>\<open>None\<close> into 0.
\<close>

definition SysTrayIcon_init ::
  "heap \<Rightarrow> string option \<Rightarrow> string \<Rightarrow> menu_arg \<Rightarrow> nat option \<Rightarrow> int option
     \<Rightarrow> heap \<times> (py_error + systray)" where
  "SysTrayIcon_init heap icon_arg hover menu_arg quit_arg default_arg =
     (case prepare_menu_options
             \<lparr>icon = icon_arg, icon_shared = False, hover_text = hover, on_quit = quit_arg,
              next_action_id = FIRST_ID, menu_actions_by_id = [], menu_options = [],
              default_menu_index = 0, hwnd = None, hicon = 0, notify_id = False,
              menu = None\<rparr> heap menu_arg of
        (heap', Inl err) \<Rightarrow> (heap', Inl err)
      | (heap', Inr self) \<Rightarrow>
          (heap', Inr (self\<lparr>default_menu_index :=
                              (case default_arg of None \<Rightarrow> 0 | Some i \<Rightarrow> i)\<rparr>)))"

section \<open>The action dispatcher\<close>

text \<open>
  What the controller does to the outside: calls of the shell adapter and of the caller's
  callables, in the order they happen.
\<close>

datatype notify_message = NIM_ADD | NIM_MODIFY | NIM_DELETE

datatype effect =
    DestroyWindow "nat option"
  | CallWithController nat
  | ShowMenu
  | DestroyIcon nat
  | LoadImage string
  | LoadIcon
  | Shell_NotifyIcon notify_message
  | PostQuitMessage
  | CheckMenuItem nat "nat option" int

text \<open>
  \<^verbatim>\<open>
  def _execute_menu_option(self, action_id):
      menu_action = self._menu_actions_by_id[action_id]
      if menu_action == SysTrayIcon.QUIT:
          DestroyWindow(self._hwnd)
      else:
          menu_action(self)
  \<close>
\<close>

definition execute_menu_option :: "systray \<Rightarrow> int \<Rightarrow> py_error + effect list" where
  "execute_menu_option self aid =
     (case map_of (menu_actions_by_id self) aid of
        None \<Rightarrow> Inl KeyError
      | Some menu_action \<Rightarrow>
          if menu_action = QUIT then Inr [DestroyWindow (hwnd self)]
          else (case menu_action of
                  PFun f \<Rightarrow> Inr [CallWithController f]
                | _ \<Rightarrow> Inl TypeError))"

text \<open>
  \<^verbatim>\<open>
  def _notify(self, hwnd, msg, wparam, lparam):
      if lparam == WM_LBUTTONDBLCLK:
          self._execute_menu_option(self._default_menu_index + SysTrayIcon.FIRST_ID)
      elif lparam == WM_RBUTTONUP:
          self._show_menu()
      elif lparam == WM_LBUTTONUP:
          pass
      return True
  \<close>
  The message codes come from the shell adapter; \<open>ShowMenu\<close> stands for the whole of
  \<^verbatim>\<open>_show_menu\<close>.
\<close>

datatype mouse_message = WM_LBUTTONDBLCLK | WM_RBUTTONUP | WM_LBUTTONUP | WM_other int

fun notify :: "systray \<Rightarrow> mouse_message \<Rightarrow> py_error + effect list" where
  "notify self WM_LBUTTONDBLCLK = execute_menu_option self (default_menu_index self + FIRST_ID)"
| "notify self WM_RBUTTONUP = Inr [ShowMenu]"
| "notify self WM_LBUTTONUP = Inr []"
| "notify self (WM_other c) = Inr []"

section \<open>The compiled tree\<close>

text \<open>
  The children of a compiled node: a node whose callback is an action is a leaf (the
  compiler does not look at its \<^verbatim>\<open>submenu\<close>, and \<^verbatim>\<open>_create_menu\<close> renders an entry of
  the dispatch map without one); a submenu node holds the list the recursive call
  returned. \<open>action_ids\<close> lists the ids in pre-order: a node, then its children, then the
  siblings after it.
\<close>

definition children :: "pyval menu_option \<Rightarrow> pyval list" where
  "children m =
     (if is_action (callback m) then []
      else (case submenu m of PList kids \<Rightarrow> kids | _ \<Rightarrow> []))"

fun node_children :: "pyval \<Rightarrow> pyval list" where
  "node_children (PObj m) = children m"
| "node_children v = []"

fun node_id :: "pyval \<Rightarrow> int list" where
  "node_id (PObj m) = (case action_id m of None \<Rightarrow> [] | Some k \<Rightarrow> [k])"
| "node_id v = []"

lemma size_list_Suc: "sum_list (map (\<lambda>n. Suc (size n)) xs) = size_list size (xs :: pyval list)"
  by (induction xs) auto

lemma size_node_children:
  "sum_list (map (\<lambda>n. Suc (size n)) (node_children n)) < Suc (size n)"
proof (cases n)
  case (PObj m)
  show ?thesis
  proof (cases m)
    case (MenuOption t i c s ft fs a h p cb)
    with PObj show ?thesis
      by (auto simp: children_def size_list_Suc split: pyval.splits)
  qed
qed auto

function action_ids :: "pyval list \<Rightarrow> int list" where
  "action_ids [] = []"
| "action_ids (n # ns) = node_id n @ action_ids (node_children n) @ action_ids ns"
  by pat_completeness auto
termination
proof (relation "measure (\<lambda>ns. sum_list (map (\<lambda>n. Suc (size n)) ns))")
  fix n :: pyval and ns :: "pyval list"
  show "(node_children n, n # ns) \<in> measure (\<lambda>ns. sum_list (map (\<lambda>n. Suc (size n)) ns))"
    using size_node_children [of n] by simp
qed auto

section \<open>The icon and the window\<close>

text \<open>
  What the shell adapter and the file system answer: whether a path is a file
  (\<^verbatim>\<open>os.path.isfile\<close>), the handle \<^verbatim>\<open>LoadImage\<close> returns for a path (0 when it fails),
  and the handle of the shared default icon that \<^verbatim>\<open>LoadIcon(0, IDI_APPLICATION)\<close> returns.
\<close>

record shell =
  isfile :: "string \<Rightarrow> bool"
  LoadImage_handle :: "string \<Rightarrow> nat"
  LoadIcon_handle :: nat

text \<open>
  \<^verbatim>\<open>
  def _load_icon(self):
      if not self._icon_shared and self._hicon != 0:
          DestroyIcon(self._hicon)
          self._hicon = 0
      hicon = 0
      if self._icon is not None and os.path.isfile(self._icon):
          ...
          hicon = self._hicon = LoadImage(0, icon, IMAGE_ICON, 0, 0, icon_flags)
          self._icon_shared = False
      if hicon == 0:
          self._hicon = LoadIcon(0, IDI_APPLICATION)
          self._icon_shared = True
          self._icon = None
  \<close>
\<close>

definition release_icon :: "systray \<Rightarrow> systray \<times> effect list" where
  "release_icon self =
     (if \<not> icon_shared self \<and> hicon self \<noteq> 0
      then (self\<lparr>hicon := 0\<rparr>, [DestroyIcon (hicon self)])
      else (self, []))"

definition load_custom_icon :: "shell \<Rightarrow> systray \<Rightarrow> nat \<times> systray \<times> effect list" where
  "load_custom_icon sh self =
     (case icon self of
        None \<Rightarrow> (0, self, [])
      | Some path \<Rightarrow>
          if isfile sh path
          then (LoadImage_handle sh path,
                self\<lparr>hicon := LoadImage_handle sh path, icon_shared := False\<rparr>,
                [LoadImage path])
          else (0, self, []))"

definition load_icon :: "shell \<Rightarrow> systray \<Rightarrow> systray \<times> effect list" where
  "load_icon sh self =
     (case release_icon self of
        (self1, released) \<Rightarrow>
          (case load_custom_icon sh self1 of
             (h, self2, loaded) \<Rightarrow>
               if h = 0
               then (self2\<lparr>hicon := LoadIcon_handle sh, icon_shared := True, icon := None\<rparr>,
                     released @ loaded @ [LoadIcon])
               else (self2, released @ loaded)))"

text \<open>
  \<^verbatim>\<open>
  def _refresh_icon(self):
      if self._hwnd is None:
          return
      if self._hicon == 0:
          self._load_icon()
      if self._notify_id: message = NIM_MODIFY
      else:               message = NIM_ADD
      self._notify_id = NotifyData(...)
      Shell_NotifyIcon(message, ctypes.byref(self._notify_id))
  \<close>
\<close>

definition refresh_icon :: "shell \<Rightarrow> systray \<Rightarrow> systray \<times> effect list" where
  "refresh_icon sh self =
     (if hwnd self = None then (self, [])
      else (case (if hicon self = 0 then load_icon sh self else (self, [])) of
              (self1, loaded) \<Rightarrow>
                (self1\<lparr>notify_id := True\<rparr>,
                 loaded @ [Shell_NotifyIcon (if notify_id self1 then NIM_MODIFY else NIM_ADD)])))"

text \<open>
  \<^verbatim>\<open>_create_window\<close>: the window handle that \<^verbatim>\<open>CreateWindowEx\<close> returns is stored, then the
  icon is refreshed.
\<close>

definition create_window :: "shell \<Rightarrow> nat \<Rightarrow> systray \<Rightarrow> systray \<times> effect list" where
  "create_window sh new_hwnd self = refresh_icon sh (self\<lparr>hwnd := Some new_hwnd\<rparr>)"

text \<open>
  \<^verbatim>\<open>
  def update(self, icon=None, hover_text=None):
      if icon:
          self._icon = icon
          self._load_icon()
      if hover_text:
          self._hover_text = hover_text
      self._refresh_icon()
  \<close>
\<close>

definition update :: "shell \<Rightarrow> string option \<Rightarrow> string option \<Rightarrow> systray \<Rightarrow> systray \<times> effect list" where
  "update sh icon_arg hover_arg self =
     (case (if icon_arg \<noteq> None \<and> icon_arg \<noteq> Some []
            then load_icon sh (self\<lparr>icon := icon_arg\<rparr>) else (self, [])) of
        (self1, loaded) \<Rightarrow>
          (case refresh_icon sh
                  (case hover_arg of
                     None \<Rightarrow> self1
                   | Some t \<Rightarrow> if t \<noteq> [] then self1\<lparr>hover_text := t\<rparr> else self1) of
             (self2, refreshed) \<Rightarrow> (self2, loaded @ refreshed)))"

text \<open>
  \<^verbatim>\<open>
  def _destroy(self, hwnd, msg, wparam, lparam):
      if self._on_quit:
          self._on_quit(self)
      nid = NotifyData(self._hwnd, 0)
      Shell_NotifyIcon(NIM_DELETE, ctypes.byref(nid))
      PostQuitMessage(0)  # Terminate the app.
      # TODO * release self._menu with DestroyMenu and reset the memeber
      #      * release self._hicon with DestoryIcon and reset the member
      #      * release loaded menu icons (loaded in _load_menu_icon) with DeleteObject
      #        (we don't keep those objects anywhere now)
      self._hwnd = None
      self._notify_id = None
  \<close>
\<close>

definition destroy :: "systray \<Rightarrow> systray \<times> effect list" where
  "destroy self =
     (self\<lparr>hwnd := None, notify_id := False\<rparr>,
      (case on_quit self of None \<Rightarrow> [] | Some q \<Rightarrow> [CallWithController q])
        @ [Shell_NotifyIcon NIM_DELETE, PostQuitMessage])"

section \<open>CheckBoxMenuOption\<close>

text \<open>
  The constants of the shell adapter that the check box uses, and the value that each
  callable returns at this moment when it is called without arguments (a hook reads
  state outside the component).
\<close>

record win32 =
  MF_BYPOSITION :: int
  MFS_CHECKED :: int
  MFS_UNCHECKED :: int

type_synonym hooks = "nat \<Rightarrow> pyval"

text \<open>
  Assignment to the instance attributes \<^verbatim>\<open>checked\<close> and \<^verbatim>\<open>fstate\<close>. A plain
  \<^verbatim>\<open>MenuOption\<close> has no attribute \<^verbatim>\<open>checked\<close>; \<open>set_checked\<close> is only about check boxes.
\<close>

fun set_checked :: "'v \<Rightarrow> 'v menu_option \<Rightarrow> 'v menu_option" where
  "set_checked v (MenuOption t i c s ft fs a h p cb) =
     MenuOption t i c s ft fs a h p (map_option (\<lambda>b. CheckBox (check_hook b) v) cb)"

fun set_fstate_attr :: "'v \<Rightarrow> 'v menu_option \<Rightarrow> 'v menu_option" where
  "set_fstate_attr v (MenuOption t i c s ft fs a h p cb) = MenuOption t i c s ft v a h p cb"

definition checked_of :: "pyval menu_option \<Rightarrow> pyval" where
  "checked_of m = (case check_box m of None \<Rightarrow> PNone | Some b \<Rightarrow> checked b)"

text \<open>
  \<^verbatim>\<open>
  def _get_checked(self):
      if self.check_hook and callable(self.check_hook):
          self.checked = bool(self.check_hook())
  \<close>
\<close>

definition get_checked :: "hooks \<Rightarrow> pyval menu_option \<Rightarrow> pyval menu_option" where
  "get_checked hk m =
     (case check_box m of
        None \<Rightarrow> m
      | Some b \<Rightarrow>
          if truthy (check_hook b) \<and> callable (check_hook b)
          then (case check_hook b of
                  PFun f \<Rightarrow> set_checked (PBool (truthy (hk f))) m
                | _ \<Rightarrow> m)
          else m)"

text \<open>
  \<^verbatim>\<open>
  def __init__(self, *args, check_hook=None, checked=False, **kwargs):
      super().__init__(*args, **kwargs)
      self.check_hook = check_hook
      self.checked = checked
      self._get_checked()
  \<close>
\<close>

definition CheckBoxMenuOption_init ::
  "hooks \<Rightarrow> pyval \<Rightarrow> pyval \<Rightarrow> pyval \<Rightarrow> pyval \<Rightarrow> pyval \<Rightarrow> pyval \<Rightarrow> pyval menu_option" where
  "CheckBoxMenuOption_init hk t i c s hook chk =
     get_checked hk (MenuOption t i c s PNone PNone None None None (Some (CheckBox hook chk)))"

text \<open>
  The property \<^verbatim>\<open>fstate\<close> of the check box, and the attribute of the base class:
  \<^verbatim>\<open>
  @property
  def fstate(self):
      self._get_checked()
      return MFS_CHECKED if self.checked else MFS_UNCHECKED

  @fstate.setter
  def fstate(self, value):
      return  # Does nothing
  \<close>
\<close>

definition fstate_get :: "win32 \<Rightarrow> hooks \<Rightarrow> pyval menu_option \<Rightarrow> pyval menu_option \<times> pyval" where
  "fstate_get w hk m =
     (case check_box m of
        None \<Rightarrow> (m, fstate_attr m)
      | Some b \<Rightarrow>
          (get_checked hk m,
           PInt (if truthy (checked_of (get_checked hk m)) then MFS_CHECKED w
                 else MFS_UNCHECKED w)))"

definition fstate_set :: "pyval \<Rightarrow> pyval menu_option \<Rightarrow> pyval menu_option" where
  "fstate_set v m = (case check_box m of None \<Rightarrow> set_fstate_attr v m | Some b \<Rightarrow> m)"

text \<open>Python's \<^verbatim>\<open>==\<close> on the values at hand: a Boolean is the number 0 or 1.\<close>

fun py_num :: "pyval \<Rightarrow> int option" where
  "py_num (PBool b) = Some (if b then 1 else 0)"
| "py_num (PInt i) = Some i"
| "py_num v = None"

definition py_eq :: "pyval \<Rightarrow> pyval \<Rightarrow> bool" where
  "py_eq a b = (case (py_num a, py_num b) of (Some x, Some y) \<Rightarrow> x = y | _ \<Rightarrow> a = b)"

text \<open>
  \<^verbatim>\<open>
  def refresh(self):                      # MenuOption.refresh is "pass"
      self._get_checked()
      if self.menu_handle is not None:
          menu_item_checked = GetMenuState(self.menu_handle, self.menu_position, MF_BYPOSITION) & MFS_CHECKED
          if self.checked != menu_item_checked:
              u_check = MFS_CHECKED if self.checked else MFS_UNCHECKED
              CheckMenuItem(self.menu_handle, self.menu_position, MF_BYPOSITION | u_check)
  \<close>
  \<open>GetMenuState\<close> is what the shell answers for a menu handle, a position and the flag.
\<close>

definition refresh ::
  "win32 \<Rightarrow> hooks \<Rightarrow> (nat \<Rightarrow> nat option \<Rightarrow> int \<Rightarrow> int) \<Rightarrow> pyval menu_option
     \<Rightarrow> pyval menu_option \<times> effect list" where
  "refresh w hk GetMenuState m =
     (case check_box m of
        None \<Rightarrow> (m, [])
      | Some b \<Rightarrow>
          (get_checked hk m,
           (case menu_handle (get_checked hk m) of
              None \<Rightarrow> []
            | Some h \<Rightarrow>
                if \<not> py_eq (checked_of (get_checked hk m))
                     (PInt (GetMenuState h (menu_position (get_checked hk m)) (MF_BYPOSITION w)
                            AND MFS_CHECKED w))
                then [CheckMenuItem h (menu_position (get_checked hk m))
                        (MF_BYPOSITION w OR
                           (if truthy (checked_of (get_checked hk m)) then MFS_CHECKED w
                            else MFS_UNCHECKED w))]
                else [])))"

section \<open>Notions used to state the properties\<close>

text \<open>
  The entries the caller supplied: the content of the list that
  \<^verbatim>\<open>_prepare_menu_options\<close> extends by the Quit entry.
\<close>

definition supplied :: "heap \<Rightarrow> menu_arg \<Rightarrow> pyval list" where
  "supplied heap arg =
     (case tuple_to_list (or_empty_tuple heap arg) of
        ListRef a \<Rightarrow> heap a
      | ByValue v \<Rightarrow> (case v of PList xs \<Rightarrow> xs | _ \<Rightarrow> []))"


text \<open>
  An entry has a recognized form when it is a tuple, a mapping or a menu option. A menu
  option is unclassifiable when its callback is neither callable, nor a special action,
  nor an iterable other than a string, and it has no children.
\<close>

fun recognized_form :: "pyval \<Rightarrow> bool" where
  "recognized_form (PTuple args) = True"
| "recognized_form (PDict kvs) = True"
| "recognized_form (PObj m) = True"
| "recognized_form v = False"

definition unclassifiable :: "pyval menu_option \<Rightarrow> bool" where
  "unclassifiable m \<longleftrightarrow>
     \<not> callable (callback m) \<and> callback m \<notin> set SPECIAL_ACTIONS \<and>
     \<not> non_string_iterable (callback m) \<and> \<not> truthy (submenu m)"

definition bad_entry :: "pyval \<Rightarrow> bool" where
  "bad_entry e =
     (if recognized_form e
      then (case to_menu_option e of Inl err \<Rightarrow> False | Inr m \<Rightarrow> unclassifiable m)
      else True)"

section \<open>Auxiliary facts\<close>

lemmas compiler_defs =
  SysTrayIcon_init_def prepare_menu_options_def or_empty_tuple_def quit_option_def
  MenuOption_init_def QUIT_def SPECIAL_ACTIONS_def FIRST_ID_def is_action_def
  submenu_or_iterable_def non_string_iterable_def children_def

lemmas checkbox_defs =
  refresh_def get_checked_def checked_of_def fstate_get_def fstate_set_def
  CheckBoxMenuOption_init_def

lemmas icon_defs =
  load_icon_def release_icon_def load_custom_icon_def refresh_icon_def create_window_def
  destroy_def update_def

lemma action_id_set_action_id [simp]: "action_id (set_action_id a m) = a"
  by (cases m) simp

lemma callback_set_callback [simp]: "callback (set_callback c m) = c"
  by (cases m) simp

lemma submenu_set_callback [simp]: "submenu (set_callback c m) = submenu m"
  by (cases m) simp

lemma action_id_set_callback [simp]: "action_id (set_callback c m) = action_id m"
  by (cases m) simp

lemma submenu_set_submenu [simp]: "submenu (set_submenu s m) = s"
  by (cases m) simp

lemma action_id_set_submenu [simp]: "action_id (set_submenu s m) = action_id m"
  by (cases m) simp

lemma submenu_or_iterable_set_action_id [simp]:
  "submenu_or_iterable (set_action_id a m) = submenu_or_iterable m"
  by (simp add: submenu_or_iterable_def)

lemma item_text_set_action_id [simp]: "item_text (set_action_id a m) = item_text m"
  by (cases m) simp

lemma icon_path_set_action_id [simp]: "icon_path (set_action_id a m) = icon_path m"
  by (cases m) simp

lemma item_text_set_callback [simp]: "item_text (set_callback c m) = item_text m"
  by (cases m) simp

lemma icon_path_set_callback [simp]: "icon_path (set_callback c m) = icon_path m"
  by (cases m) simp

lemma item_text_set_submenu [simp]: "item_text (set_submenu s m) = item_text m"
  by (cases m) simp

lemma icon_path_set_submenu [simp]: "icon_path (set_submenu s m) = icon_path m"
  by (cases m) simp

lemma not_action_PNone [simp]: "\<not> is_action PNone"
  by (simp add: is_action_def SPECIAL_ACTIONS_def QUIT_def)

lemma children_leaf [simp]: "is_action (callback m) \<Longrightarrow> children m = []"
  by (simp add: children_def)

lemma children_compiled_submenu [simp]:
  "children (set_callback PNone (set_submenu (PList kids) m)) = kids"
  by (simp add: children_def)


text \<open>The loop over a list is the loop over its head followed by the loop over its tail.\<close>

lemma recompile_Cons:
  "recompile_menu_options_with_ids self (e # es) =
     (case recompile_menu_options_with_ids self [e] of
        Inl err \<Rightarrow> Inl err
      | Inr (r1, s1) \<Rightarrow>
          (case recompile_menu_options_with_ids s1 es of
             Inl err \<Rightarrow> Inl err
           | Inr (r2, s2) \<Rightarrow> Inr (r1 @ r2, s2)))"
  by (simp add: Let_def split: sum.splits prod.splits)

lemma recompile_append:
  "recompile_menu_options_with_ids self (xs @ ys) =
     (case recompile_menu_options_with_ids self xs of
        Inl err \<Rightarrow> Inl err
      | Inr (r1, s1) \<Rightarrow>
          (case recompile_menu_options_with_ids s1 ys of
             Inl err \<Rightarrow> Inl err
           | Inr (r2, s2) \<Rightarrow> Inr (r1 @ r2, s2)))"
proof (induction xs arbitrary: self)
  case Nil
  show ?case by (simp split: sum.splits prod.splits)
next
  case (Cons x xs)
  show ?case
    unfolding append_Cons
    apply (subst recompile_Cons)
    apply (subst (2) recompile_Cons)
    apply (simp only: Cons.IH)
    apply (simp split: sum.splits prod.splits)
    done
qed

lemma recompile_length:
  "recompile_menu_options_with_ids self es = Inr (res, s') \<Longrightarrow> length res = length es"
proof (induction es arbitrary: self res s')
  case Nil
  then show ?case by simp
next
  case (Cons e es)
  from Cons.prems obtain r1 s1 r2 where
    "recompile_menu_options_with_ids self [e] = Inr (r1, s1)"
    and r2: "recompile_menu_options_with_ids s1 es = Inr (r2, s')" and res: "res = r1 @ r2"
    by (subst (asm) recompile_Cons) (auto split: sum.splits prod.splits)
  then have "length r1 = 1"
    by (auto simp: Let_def split: sum.splits prod.splits if_splits)
  with Cons.IH [OF r2] res show ?case by simp
qed


lemma list_append_items:
  "list_append heap a v = Inr (h', items) \<Longrightarrow>
     items = (case a of ListRef r \<Rightarrow> heap r
              | ByValue x \<Rightarrow> (case x of PList xs \<Rightarrow> xs | _ \<Rightarrow> [])) @ [v]"
  by (cases "(heap, a, v)" rule: list_append.cases) auto

lemma list_append_ByValue:
  "list_append heap (ByValue v) x = Inr (h', items) \<Longrightarrow> h' = heap"
  by (cases v) auto


lemma fst_prepare_menu_options:
  "fst (prepare_menu_options self heap arg) =
     (case list_append heap (tuple_to_list (or_empty_tuple heap arg)) quit_option of
        Inl err \<Rightarrow> heap
      | Inr (h', items) \<Rightarrow> h')"
  by (simp add: prepare_menu_options_def split: sum.splits prod.splits)

lemma fst_SysTrayIcon_init:
  "fst (SysTrayIcon_init heap ic hov arg q d) =
     fst (prepare_menu_options
            \<lparr>icon = ic, icon_shared = False, hover_text = hov, on_quit = q,
              next_action_id = FIRST_ID, menu_actions_by_id = [], menu_options = [],
              default_menu_index = 0, hwnd = None, hicon = 0, notify_id = False,
              menu = None\<rparr> heap arg)"
  by (simp add: SysTrayIcon_init_def split: sum.splits prod.splits)



text \<open>
  A bad entry stops the loop that visits it, so a bad entry at the top level makes the
  construction of the controller raise.
\<close>

lemma bad_entry_fails:
  "bad_entry e \<Longrightarrow> \<exists>err. recompile_menu_options_with_ids self [e] = Inl err"
  by (cases e)
     (auto simp: bad_entry_def unclassifiable_def is_action_def submenu_or_iterable_def Let_def
           split: sum.splits)

lemma bad_member_fails:
  "e \<in> set es \<Longrightarrow> bad_entry e \<Longrightarrow> \<exists>err. recompile_menu_options_with_ids self es = Inl err"
proof (induction es arbitrary: self)
  case Nil
  then show ?case by simp
next
  case (Cons x xs)
  show ?case
  proof (cases "recompile_menu_options_with_ids self [x]")
    case (Inl err)
    then show ?thesis by (subst recompile_Cons) simp
  next
    case (Inr p)
    obtain r1 s1 where p: "p = (r1, s1)" by (cases p)
    from Inr Cons.prems(2) have "x \<noteq> e" using bad_entry_fails [of e self] by auto
    with Cons.prems(1) have "e \<in> set xs" by simp
    from Cons.IH [OF this Cons.prems(2), of s1] obtain err where
      "recompile_menu_options_with_ids s1 xs = Inl err" ..
    with Inr p show ?thesis by (subst recompile_Cons) simp
  qed
qed

lemma top_level_bad_entry_raises:
  assumes "e \<in> set (supplied heap arg)" and "bad_entry e"
  shows "\<exists>err. snd (SysTrayIcon_init heap ic hov arg q d) = Inl err"
proof -
  let ?s0 = "\<lparr>icon = ic, icon_shared = False, hover_text = hov, on_quit = q,
              next_action_id = FIRST_ID, menu_actions_by_id = [], menu_options = [],
              default_menu_index = 0, hwnd = None, hicon = 0, notify_id = False,
              menu = None\<rparr>"
  let ?s00 = "?s0\<lparr>next_action_id := FIRST_ID, menu_actions_by_id := []\<rparr>"
  have "\<exists>err. snd (prepare_menu_options ?s0 heap arg) = Inl err"
  proof (cases "list_append heap (tuple_to_list (or_empty_tuple heap arg)) quit_option")
    case (Inl err)
    then show ?thesis by (simp add: prepare_menu_options_def)
  next
    case (Inr p)
    obtain h' items where p: "p = (h', items)" by (cases p)
    have items: "items = supplied heap arg @ [quit_option]"
      using list_append_items [of heap _ quit_option h' items] Inr p
      by (simp add: supplied_def)
    from bad_member_fails [OF assms, of ?s00] obtain err where
      "recompile_menu_options_with_ids ?s00 (supplied heap arg) = Inl err" ..
    then have "recompile_menu_options_with_ids ?s00 items = Inl err"
      unfolding items recompile_append by simp
    with Inr p show ?thesis by (simp add: prepare_menu_options_def)
  qed
  then show ?thesis
    by (auto simp: SysTrayIcon_init_def split: prod.splits sum.splits)
qed

text \<open>
  What \<^verbatim>\<open>_load_icon\<close> and \<^verbatim>\<open>_destroy\<close> release: an icon the component owns is released
  first thing when an icon is loaded, the shared icon is never released, and the teardown
  releases no icon at all.
\<close>

lemma load_icon_releases_owned_first:
  "\<not> icon_shared self \<Longrightarrow> hicon self \<noteq> 0 \<Longrightarrow>
     \<exists>rest. snd (load_icon sh self) = DestroyIcon (hicon self) # rest
            \<and> DestroyIcon (hicon self) \<notin> set rest"
  by (auto simp: load_icon_def release_icon_def load_custom_icon_def split: option.splits)

lemma load_icon_keeps_shared:
  "icon_shared self \<Longrightarrow> DestroyIcon h \<notin> set (snd (load_icon sh self))"
  by (auto simp: load_icon_def release_icon_def load_custom_icon_def split: option.splits)

lemma load_icon_releases_only_current:
  "DestroyIcon h \<in> set (snd (load_icon sh self)) \<Longrightarrow>
     h = hicon self \<and> h \<noteq> 0 \<and> \<not> icon_shared self"
  by (auto simp: load_icon_def release_icon_def load_custom_icon_def
           split: option.splits if_splits)

lemma destroy_releases_no_icon: "DestroyIcon h \<notin> set (snd (destroy self))"
  by (simp add: destroy_def split: option.splits)

section \<open>Properties\<close>

text \<open>
  C1. The ids of a compiled tree should be unique and strictly increasing along the
  pre-order walk, the children of a submenu following the submenu's own id. The compiler
  reads the counter for the submenu, recurses with the counter unchanged and increments
  it only after the recursive call. For a menu option \<^verbatim>\<open>Parent\<close> whose \<^verbatim>\<open>submenu\<close> holds
  the leaves \<^verbatim>\<open>A\<close> and \<^verbatim>\<open>B\<close>, the walk therefore reads 1023, 1023, 1024, 1026: the submenu
  and its first child share an id, the id 1025 is skipped, and the dispatch map binds the
  submenu's id to the callback of \<^verbatim>\<open>A\<close>.
\<close>

theorem submenu_shares_id_with_first_child:
  "map_sum id (\<lambda>self. (action_ids (menu_options self), menu_actions_by_id self,
                        distinct (action_ids (menu_options self))))
     (snd (SysTrayIcon_init
            (heap(r := [PObj (MenuOption_init (PStr ''Parent'') PNone PNone
                          (PList [PTuple [PStr ''A'', PNone, PFun cb_a],
                                  PTuple [PStr ''B'', PNone, PFun cb_b]]))]))
            ic hov (ListRef r) q d)) =
   Inr ([1023, 1023, 1024, 1026],
        [(1023, PFun cb_a), (1024, PFun cb_b), (1026, QUIT)],
        False)"
  by (simp add: compiler_defs)

text \<open>
  C2. Scenario B: the entry \<^verbatim>\<open>("Parent", None, [("A", None, cb_a), ("B", None, cb_b)])\<close>
  should compile to the ids BASE .. BASE+3. Its \<^verbatim>\<open>submenu\<close> is \<^verbatim>\<open>None\<close>, so the compiler
  takes the Boolean that \<^verbatim>\<open>_non_string_iterable\<close> returns as the submenu and iterates over
  \<^verbatim>\<open>True\<close>: the construction of the controller raises \<^verbatim>\<open>TypeError\<close>.
\<close>

theorem scenario_B_raises_TypeError:
  "snd (SysTrayIcon_init
          (heap(r := [PTuple [PStr ''Parent'', PNone,
                        PList [PTuple [PStr ''A'', PNone, PFun cb_a],
                               PTuple [PStr ''B'', PNone, PFun cb_b]]]]))
          ic hov (ListRef r) q d) = Inl TypeError"
  by (simp add: compiler_defs)




text \<open>
  C4. A refresh of a check box that has a hook stores the truth value of what the hook
  returns now, whatever the cached flag was; for a hook that returns a Boolean this is the
  returned value itself. A check box without a hook is left as it is, so its cached
  literal stays in use.
\<close>

theorem refresh_takes_hook_value:
  "fst (refresh w hk gms (MenuOption t i c s ft fs a h p (Some (CheckBox (PFun f) old)))) =
     MenuOption t i c s ft fs a h p (Some (CheckBox (PFun f) (PBool (truthy (hk f)))))
   \<and> checked_of (fst (refresh w (hk(f := PBool b)) gms
        (MenuOption t i c s ft fs a h p (Some (CheckBox (PFun f) old))))) = PBool b
   \<and> fst (refresh w hk gms (MenuOption t i c s ft fs a h p (Some (CheckBox PNone old)))) =
     MenuOption t i c s ft fs a h p (Some (CheckBox PNone old))"
  by (simp add: checkbox_defs)

text \<open>
  C5. Scenario A: the list of the one entry \<^verbatim>\<open>("Hi", None, hi_cb)\<close> compiles to the leaf
  \<^verbatim>\<open>Hi\<close> with the id \<open>FIRST_ID\<close> and the leaf \<^verbatim>\<open>Quit\<close> with the id \<open>FIRST_ID + 1\<close>, and executing
  \<open>FIRST_ID\<close> is one call of \<^verbatim>\<open>hi_cb\<close> with the controller as its argument.
\<close>

theorem scenario_A_ids_and_dispatch:
  "(case snd (SysTrayIcon_init (heap(r := [PTuple [PStr ''Hi'', PNone, PFun hi_cb]]))
                ic hov (ListRef r) q d) of
      Inl err \<Rightarrow> False
    | Inr self \<Rightarrow>
        FIRST_ID = 1023
        \<and> menu_options self =
            [PObj (MenuOption (PStr ''Hi'') PNone (PFun hi_cb) PNone PNone PNone
                     (Some FIRST_ID) None None None),
             PObj (MenuOption (PStr ''Quit'') PNone QUIT PNone PNone PNone
                     (Some (FIRST_ID + 1)) None None None)]
        \<and> action_ids (menu_options self) = [FIRST_ID, FIRST_ID + 1]
        \<and> execute_menu_option self FIRST_ID = Inr [CallWithController hi_cb])"
  by (simp add: compiler_defs execute_menu_option_def)

text \<open>
  C6. Assigning to the rendered check-state of a check box should be a no-op, and an
  assignment to the cached flag \<^verbatim>\<open>checked\<close> should be rejected, so that only the hook
  decides what is rendered. The class makes \<^verbatim>\<open>fstate\<close> a property with a setter that does
  nothing, but \<^verbatim>\<open>checked\<close> is an ordinary attribute: on a check box without a hook, created
  unchecked, the assignment \<^verbatim>\<open>checked = True\<close> is stored, the node changes, and the rendered
  state goes from unchecked (0) to checked (8).
\<close>

theorem checked_flag_is_writable:
  "set_checked (PBool True)
     (CheckBoxMenuOption_init (\<lambda>f. PNone) (PStr ''Mute'') PNone (PFun 0) PNone PNone (PBool False))
   \<noteq> CheckBoxMenuOption_init (\<lambda>f. PNone) (PStr ''Mute'') PNone (PFun 0) PNone PNone (PBool False)
   \<and> checked_of (set_checked (PBool True)
        (CheckBoxMenuOption_init (\<lambda>f. PNone) (PStr ''Mute'') PNone (PFun 0) PNone PNone
           (PBool False))) = PBool True
   \<and> snd (fstate_get \<lparr>MF_BYPOSITION = 1024, MFS_CHECKED = 8, MFS_UNCHECKED = 0\<rparr> (\<lambda>f. PNone)
        (CheckBoxMenuOption_init (\<lambda>f. PNone) (PStr ''Mute'') PNone (PFun 0) PNone PNone
           (PBool False)))
     = PInt 0
   \<and> snd (fstate_get \<lparr>MF_BYPOSITION = 1024, MFS_CHECKED = 8, MFS_UNCHECKED = 0\<rparr> (\<lambda>f. PNone)
        (set_checked (PBool True)
          (CheckBoxMenuOption_init (\<lambda>f. PNone) (PStr ''Mute'') PNone (PFun 0) PNone PNone
             (PBool False))))
     = PInt 8"
  by (simp add: checkbox_defs)

text \<open>
  What the class does keep: assigning to \<^verbatim>\<open>fstate\<close> of a check box changes nothing of the
  node, and on a check box with a hook an assignment to \<^verbatim>\<open>checked\<close> is overwritten from
  the hook by the next read of \<^verbatim>\<open>fstate\<close> and by the next refresh.
\<close>

lemma fstate_write_is_noop:
  "fstate_set v (MenuOption t i c s ft fs a h p (Some cb)) =
     MenuOption t i c s ft fs a h p (Some cb)
   \<and> fstate_get w hk
       (set_checked v (MenuOption t i c s ft fs a h p (Some (CheckBox (PFun f) old)))) =
     fstate_get w hk (MenuOption t i c s ft fs a h p (Some (CheckBox (PFun f) old)))
   \<and> refresh w hk gms
       (set_checked v (MenuOption t i c s ft fs a h p (Some (CheckBox (PFun f) old)))) =
     refresh w hk gms (MenuOption t i c s ft fs a h p (Some (CheckBox (PFun f) old)))"
  by (simp add: checkbox_defs split: option.splits)

text \<open>
  C7. A specification that contains an entry of no recognized form should make the
  compilation raise before the controller starts. The compiler takes an entry whose
  callback is callable for a leaf before it looks at the entry's \<^verbatim>\<open>submenu\<close>, so the
  children of such an entry are neither compiled nor checked: for the list of the one
  entry \<^verbatim>\<open>("L", None, cb, [5])\<close>, whose child 5 the compiler would refuse as an entry, the
  controller is constructed, and its menu holds the leaf \<^verbatim>\<open>L\<close> with the child 5 as it was
  given.
\<close>

theorem leaf_submenu_is_not_examined:
  "to_menu_option (PInt 5) = Inl ValueError_unknown_menu_option_type
   \<and> snd (SysTrayIcon_init (heap(r := [PTuple [PStr ''L'', PNone, PFun cb, PList [PInt 5]]]))
            ic hov (ListRef r) q d) =
     Inr \<lparr>icon = ic, icon_shared = False, hover_text = hov, on_quit = q,
          next_action_id = 1025,
          menu_actions_by_id = [(1023, PFun cb), (1024, QUIT)],
          menu_options =
            [PObj (MenuOption (PStr ''L'') PNone (PFun cb) (PList [PInt 5]) PNone PNone
                     (Some 1023) None None None),
             PObj (MenuOption (PStr ''Quit'') PNone QUIT PNone PNone PNone
                     (Some 1024) None None None)],
          default_menu_index = (case d of None \<Rightarrow> 0 | Some i \<Rightarrow> i),
          hwnd = None, hicon = 0, notify_id = False, menu = None\<rparr>"
  by (simp add: compiler_defs)

text \<open>
  C8. An icon loaded from a file should be released before it is replaced and on
  teardown, and the shared default icon never. On teardown the component releases
  nothing: a controller whose icon \<^verbatim>\<open>app.ico\<close> is a file is started, which loads the icon
  (handle 7, owned), and is then destroyed; the teardown calls the quit callback, deletes
  the notification entry and posts the quit message, and the handle 7 is still held.
\<close>

theorem teardown_keeps_owned_icon:
  "(case snd (SysTrayIcon_init heap (Some ''app.ico'') hov (ByValue PNone) qt d) of
      Inl err \<Rightarrow> False
    | Inr s0 \<Rightarrow>
        (case create_window
                \<lparr>isfile = (\<lambda>path. path = ''app.ico''), LoadImage_handle = (\<lambda>path. 7),
                 LoadIcon_handle = 1\<rparr> 5 s0 of
           (s1, started) \<Rightarrow>
             started = [LoadImage ''app.ico'', Shell_NotifyIcon NIM_ADD]
             \<and> hicon s1 = 7 \<and> icon_shared s1 = False
             \<and> (case destroy s1 of
                  (s2, torn_down) \<Rightarrow>
                    torn_down = (case qt of None \<Rightarrow> [] | Some f \<Rightarrow> [CallWithController f])
                                  @ [Shell_NotifyIcon NIM_DELETE, PostQuitMessage]
                    \<and> DestroyIcon 7 \<notin> set torn_down
                    \<and> hicon s2 = 7 \<and> icon_shared s2 = False \<and> hwnd s2 = None)))"
  by (simp add: compiler_defs icon_defs split: option.splits)

text \<open>
  C9. Scenario D: with the default index 1 and two leaves at the top, which hold the ids
  \<open>FIRST_ID\<close> and \<open>FIRST_ID + 1\<close>, a double click of the left button executes the id
  \<open>FIRST_ID + 1\<close>: one call of the callback of the second leaf.
\<close>

theorem scenario_D_double_click:
  "(case snd (SysTrayIcon_init (heap(r := [PTuple [t1, i1, PFun f], PTuple [t2, i2, PFun g]]))
                ic hov (ListRef r) q (Some 1)) of
      Inl err \<Rightarrow> False
    | Inr self \<Rightarrow>
        default_menu_index self = 1
        \<and> action_ids (menu_options self) = [FIRST_ID, FIRST_ID + 1, FIRST_ID + 2]
        \<and> map_of (menu_actions_by_id self) FIRST_ID = Some (PFun f)
        \<and> map_of (menu_actions_by_id self) (FIRST_ID + 1) = Some (PFun g)
        \<and> notify self WM_LBUTTONDBLCLK = Inr [CallWithController g])"
  by (simp add: compiler_defs execute_menu_option_def)

text \<open>
  C10, as amended. The construction of the controller changes the store of the caller's
  lists in one case only: a list that is not empty gets the Quit entry appended in place
  (whether or not the compilation then succeeds). An empty list is falsy and is replaced
  by an empty tuple, which, like every tuple, is copied into a fresh list; any other
  argument leaves the store as it is.
\<close>

theorem caller_list_after_init:
  "fst (SysTrayIcon_init heap ic hov arg q d) =
     (case arg of
        ListRef a \<Rightarrow> if heap a \<noteq> [] then heap(a := heap a @ [quit_option]) else heap
      | ByValue v \<Rightarrow> heap)
   \<and> quit_option = PObj (MenuOption (PStr ''Quit'') PNone QUIT PNone PNone PNone
                            None None None None)"
proof (cases arg)
  case (ListRef a)
  then show ?thesis
    by (simp add: fst_SysTrayIcon_init fst_prepare_menu_options or_empty_tuple_def
          quit_option_def MenuOption_init_def)
next
  case (ByValue v)
  have "\<exists>v'. tuple_to_list (ByValue u) = ByValue v'" for u
    by (cases u) auto
  then obtain v' where "tuple_to_list (or_empty_tuple heap (ByValue v)) = ByValue v'"
    unfolding or_empty_tuple_def by (cases "truthy v") fastforce+
  with ByValue show ?thesis
    by (auto simp: fst_SysTrayIcon_init fst_prepare_menu_options quit_option_def
               MenuOption_init_def
             split: sum.splits dest: list_append_ByValue)
qed

text \<open>
  The claim as stated fails for an empty list: the controller is constructed, and the
  caller's list is still empty.
\<close>

theorem empty_list_is_not_extended:
  "fst (SysTrayIcon_init (\<lambda>a. []) None ''tip'' (ListRef 0) None None) 0 = []
   \<and> (\<exists>self. snd (SysTrayIcon_init (\<lambda>a. []) None ''tip'' (ListRef 0) None None) = Inr self)"
  by (simp add: compiler_defs)

end
